theory Spec2Isabelle
  imports Complex_Main
begin

section \<open>The embedding service (embed.py)\<close>

text \<open>
  The service keeps a global container of loaded models, fills it once at start-up, and
  answers five HTTP operations by forwarding into library calls. The libraries
  (sentence-transformers, spaCy, psutil, torch, the garbage collector) are collaborators
  outside the repository: they enter the model as parameters, and every call made on one
  of them is recorded, in order, in a log, so that "the handler never calls encode" and
  "the handler calls encode once, with these arguments" are statements about a value.
\<close>

subsection \<open>Values that cross the library boundary\<close>

text \<open>
  An exception is either the framework's \<open>HTTPException(status_code, detail)\<close> or any
  other exception, kept as the text \<open>str(e)\<close> gives for it.
\<close>

datatype exn = HTTPException nat string | OtherException string

text \<open>
  What \<open>encode\<close> returns: a numpy array, here a scalar (zero dimensions) or a sequence of
  arrays along the first axis. \<open>'n\<close> is the type of the numbers in it.
\<close>

datatype 'n ndarray = Scalar 'n | Array "'n ndarray list"

text \<open>The Python value \<open>ndarray.tolist()\<close> builds: a number or a (nested) list.\<close>

datatype 'n pyval = PyNum 'n | PyList "'n pyval list"

fun tolist :: "'n ndarray \<Rightarrow> 'n pyval" where
  "tolist (Scalar x) = PyNum x"
| "tolist (Array xs) = PyList (map tolist xs)"

text \<open>\<open>len(a)\<close> on an array: the size of the first axis; a TypeError on a 0-d array.\<close>

fun len_ndarray :: "'n ndarray \<Rightarrow> exn + nat" where
  "len_ndarray (Scalar x) = Inl (OtherException ''len() of unsized object'')"
| "len_ndarray (Array xs) = Inr (length xs)"

text \<open>\<open>encode\<close> takes one string or a list of strings.\<close>

datatype enc_input = Str string | StrList "string list"

text \<open>
  A loaded \<open>SentenceTransformer\<close>: its \<open>encode(sentences, batch_size=...)\<close> method, which
  returns an array or raises. The second argument is the \<open>batch_size\<close> keyword, \<open>None\<close>
  when the caller leaves it out. A loaded model is a non-empty module sequence, so it is
  truthy: \<open>not model\<close> holds exactly when the lookup returned \<open>None\<close>.
\<close>

record 'n SentenceTransformer =
  encode :: "enc_input \<Rightarrow> nat option \<Rightarrow> exn + 'n ndarray"

text \<open>
  The spaCy pipeline, called on a sentence, returns a document or raises; of the document
  the service reads \<open>doc.ents\<close>, each entity with its \<open>text\<close> and \<open>label_\<close> (here \<open>ent_text\<close>, \<open>ent_label\<close>).
\<close>

record Span =
  ent_text :: string
  ent_label :: string

record Doc =
  ents :: "Span list"

type_synonym Language = "string \<Rightarrow> exn + Doc"

subsection \<open>Schemas\<close>

record EmbedRequest =
  e_text :: string
  e_prefix :: string
  e_model :: string

record BatchEmbedRequest =
  sentences :: "string list"
  b_prefix :: string
  b_model :: string

record AnalyzeRequest =
  sentence :: string

text \<open>The defaults the schemas give to fields a request leaves out.\<close>

definition default_prefix :: string where
  "default_prefix = ''passage: ''"

definition default_model :: string where
  "default_model = ''intfloat/multilingual-e5-small''"

definition EmbedRequest_default :: "string \<Rightarrow> EmbedRequest" where
  "EmbedRequest_default t = \<lparr>e_text = t, e_prefix = default_prefix, e_model = default_model\<rparr>"

definition BatchEmbedRequest_default :: "string list \<Rightarrow> BatchEmbedRequest" where
  "BatchEmbedRequest_default ss =
     \<lparr>sentences = ss, b_prefix = default_prefix, b_model = default_model\<rparr>"

subsection \<open>The model container and the log of library calls\<close>

record 'n ModelContainer =
  models :: "string \<rightharpoonup> 'n SentenceTransformer"
  nlp :: "Language option"
  device :: string

text \<open>The one function the service ever hands to \<open>BackgroundTasks.add_task\<close>.\<close>

datatype task = MemoryCleanup

datatype event =
    LoadSentenceTransformer string string
  | SpacyLoad string "string list"
  | ModelsGet string
  | Encode string enc_input "nat option"
  | NlpCall string
  | VirtualMemory
  | ProcessMemoryInfo
  | EmptyCache
  | GcCollect
  | ResponseSent

text \<open>
  The state a handler runs in: the global \<open>models\<close> object and the calls made so far.
\<close>

record 'n world =
  container :: "'n ModelContainer"
  log :: "event list"

definition emit :: "event list \<Rightarrow> 'n world \<Rightarrow> 'n world" where
  "emit es w = w\<lparr>log := log w @ es\<rparr>"

text \<open>
  What the surroundings answer when asked during one request: \<open>torch.cuda.is_available()\<close>,
  \<open>psutil.virtual_memory().percent\<close> (or the exception the probe raises), the resident
  set size of the process in bytes, \<open>str(e)\<close> of an \<open>HTTPException\<close> (the framework defines
  it), and the builtin \<open>round(x, 2)\<close>.
\<close>

record env =
  cuda_is_available :: bool
  virtual_memory_percent :: "exn + real"
  memory_info_rss :: nat
  http_exception_str :: "nat \<Rightarrow> string \<Rightarrow> string"
  round2 :: "real \<Rightarrow> real"

text \<open>\<open>str(e)\<close> in the \<open>except Exception as e\<close> clauses.\<close>

fun str_exn :: "env \<Rightarrow> exn \<Rightarrow> string" where
  "str_exn ev (HTTPException c d) = http_exception_str ev c d"
| "str_exn ev (OtherException m) = m"

subsection \<open>Start-up\<close>

text \<open>The loaders of the two libraries; each returns the loaded object or raises.\<close>

record 'n loaders =
  load_SentenceTransformer :: "string \<Rightarrow> string \<Rightarrow> exn + 'n SentenceTransformer"
  spacy_load :: "string \<Rightarrow> string list \<Rightarrow> exn + Language"

text \<open>\<open>ModelContainer.__init__\<close>\<close>

definition ModelContainer_init :: "bool \<Rightarrow> 'n ModelContainer" where
  "ModelContainer_init cuda =
     \<lparr>models = Map.empty, nlp = None, device = (if cuda then ''cuda'' else ''cpu'')\<rparr>"

definition e5_small :: string where
  "e5_small = ''intfloat/multilingual-e5-small''"

definition e5_large_instruct :: string where
  "e5_large_instruct = ''intfloat/multilingual-e5-large-instruct''"

text \<open>
  \<open>ModelContainer.load_models\<close>: three loads in sequence, each stored as soon as it
  returns; an exception leaves the container as far as it got and propagates.
\<close>

definition load_models :: "'n loaders \<Rightarrow> 'n world \<Rightarrow> (exn + unit) \<times> 'n world" where
  "load_models ld w =
     (let c = container w; d = device c;
          w1 = emit [LoadSentenceTransformer e5_small d] w in
      case load_SentenceTransformer ld e5_small d of
        Inl e \<Rightarrow> (Inl e, w1)
      | Inr m1 \<Rightarrow>
          let c1 = c\<lparr>models := (models c)(e5_small \<mapsto> m1)\<rparr>;
              w2 = emit [LoadSentenceTransformer e5_large_instruct d] (w1\<lparr>container := c1\<rparr>) in
          (case load_SentenceTransformer ld e5_large_instruct d of
             Inl e \<Rightarrow> (Inl e, w2)
           | Inr m2 \<Rightarrow>
               let c2 = c1\<lparr>models := (models c1)(e5_large_instruct \<mapsto> m2)\<rparr>;
                   w3 = emit [SpacyLoad ''en_core_web_sm'' [''parser'']] (w2\<lparr>container := c2\<rparr>) in
               (case spacy_load ld ''en_core_web_sm'' [''parser''] of
                  Inl e \<Rightarrow> (Inl e, w3)
                | Inr p \<Rightarrow> (Inr (), w3\<lparr>container := c2\<lparr>nlp := Some p\<rparr>\<rparr>))))"

text \<open>The module-level \<open>models = ModelContainer()\<close>, before anything is loaded.\<close>

definition initial_world :: "bool \<Rightarrow> 'n world" where
  "initial_world cuda = \<lparr>container = ModelContainer_init cuda, log = []\<rparr>"

definition startup_event :: "'n loaders \<Rightarrow> 'n world \<Rightarrow> (exn + unit) \<times> 'n world" where
  "startup_event ld w = load_models ld w"

subsection \<open>Helpers\<close>

text \<open>\<open>memory_cleanup\<close>: release the GPU cache when CUDA is available, then collect.\<close>

definition memory_cleanup :: "env \<Rightarrow> 'n world \<Rightarrow> 'n world" where
  "memory_cleanup ev w =
     (let w1 = (if cuda_is_available ev then emit [EmptyCache] w else w)
      in emit [GcCollect] w1)"

subsection \<open>Endpoints\<close>

text \<open>The JSON bodies the endpoints return, one constructor for each dictionary shape.\<close>

datatype 'n body =
    HealthBody string string
  | EmbedBody "'n pyval" nat
  | BatchBody "'n pyval" nat
  | AnalyzeBody nat "(string \<times> string) list"
  | MemoryBody real real

text \<open>\<open>GET /health\<close>\<close>

definition health :: "'n world \<Rightarrow> (exn + 'n body) \<times> 'n world" where
  "health w = (Inr (HealthBody ''healthy'' (device (container w))), w)"

text \<open>
  \<open>POST /embed\<close>. First the body of the \<open>try\<close> block: the rejection of an unknown model
  is raised inside it.
\<close>

definition embed_text_try :: "'n world \<Rightarrow> EmbedRequest \<Rightarrow> (exn + 'n body) \<times> 'n world" where
  "embed_text_try w request =
     (let w1 = emit [ModelsGet (e_model request)] w in
      case models (container w) (e_model request) of
        None \<Rightarrow>
          (Inl (HTTPException 400 (''Model '' @ e_model request @ '' not loaded'')), w1)
      | Some model \<Rightarrow>
          let combined_text = e_prefix request @ e_text request;
              w2 = emit [Encode (e_model request) (Str combined_text) None] w1 in
          (case encode model (Str combined_text) None of
             Inl e \<Rightarrow> (Inl e, w2)
           | Inr embedding \<Rightarrow>
               (case len_ndarray embedding of
                  Inl e \<Rightarrow> (Inl e, w2)
                | Inr n \<Rightarrow> (Inr (EmbedBody (tolist embedding) n), w2))))"

text \<open>The handler: \<open>except Exception as e\<close> turns whatever the block raised into a 500.\<close>

definition embed_text :: "env \<Rightarrow> 'n world \<Rightarrow> EmbedRequest \<Rightarrow> (exn + 'n body) \<times> 'n world" where
  "embed_text ev w request =
     (case embed_text_try w request of
        (Inl e, w') \<Rightarrow> (Inl (HTTPException 500 (str_exn ev e)), w')
      | (Inr b, w') \<Rightarrow> (Inr b, w'))"

text \<open>
  \<open>POST /embed_sentences\<close>. The \<open>try\<close> block; \<open>background_tasks\<close> is the queue the
  framework passes in, returned with what \<open>add_task\<close> appended.
\<close>

definition embed_batch_try ::
  "env \<Rightarrow> 'n world \<Rightarrow> BatchEmbedRequest \<Rightarrow> task list \<Rightarrow> (exn + 'n body) \<times> 'n world \<times> task list"
where
  "embed_batch_try ev w request background_tasks =
     (let w1 = emit [ModelsGet (b_model request)] w in
      case models (container w) (b_model request) of
        None \<Rightarrow>
          (Inl (HTTPException 400 (''Model '' @ b_model request @ '' not loaded'')), w1,
           background_tasks)
      | Some model \<Rightarrow>
          let prefixed = map (\<lambda>s. b_prefix request @ s) (sentences request);
              w2 = emit [Encode (b_model request) (StrList prefixed) (Some 32)] w1 in
          (case encode model (StrList prefixed) (Some 32) of
             Inl e \<Rightarrow> (Inl e, w2, background_tasks)
           | Inr embeddings \<Rightarrow>
               let w3 = emit [VirtualMemory] w2 in
               (case virtual_memory_percent ev of
                  Inl e \<Rightarrow> (Inl e, w3, background_tasks)
                | Inr percent \<Rightarrow>
                    let bt = (if percent > 80 then background_tasks @ [MemoryCleanup]
                              else background_tasks) in
                    (case len_ndarray embeddings of
                       Inl e \<Rightarrow> (Inl e, w3, bt)
                     | Inr n \<Rightarrow> (Inr (BatchBody (tolist embeddings) n), w3, bt)))))"

text \<open>The handler: the empty list is rejected before the \<open>try\<close> block is entered.\<close>

definition embed_batch ::
  "env \<Rightarrow> 'n world \<Rightarrow> BatchEmbedRequest \<Rightarrow> task list \<Rightarrow> (exn + 'n body) \<times> 'n world \<times> task list"
where
  "embed_batch ev w request background_tasks =
     (if sentences request = []
      then (Inl (HTTPException 400 ''Empty sentence list''), w, background_tasks)
      else (case embed_batch_try ev w request background_tasks of
              (Inl e, w', bt) \<Rightarrow> (Inl (HTTPException 500 (str_exn ev e)), w', bt)
            | (Inr b, w', bt) \<Rightarrow> (Inr b, w', bt)))"

text \<open>
  \<open>POST /analyze\<close>: no \<open>try\<close> block; what the pipeline raises leaves the handler as it is.
  Before start-up \<open>models.nlp\<close> is \<open>None\<close>, and calling it is a TypeError.
\<close>

definition analyze_text :: "'n world \<Rightarrow> AnalyzeRequest \<Rightarrow> (exn + 'n body) \<times> 'n world" where
  "analyze_text w request =
     (case nlp (container w) of
        None \<Rightarrow>
          (Inl (OtherException (CHR 0x27 # ''NoneType'' @ CHR 0x27 # '' object is not callable'')), w)
      | Some pipeline \<Rightarrow>
          let w1 = emit [NlpCall (sentence request)] w in
          (case pipeline (sentence request) of
             Inl e \<Rightarrow> (Inl e, w1)
           | Inr doc \<Rightarrow>
               (Inr (AnalyzeBody (length (ents doc))
                       (map (\<lambda>ent. (ent_text ent, ent_label ent)) (ents doc))), w1)))"

text \<open>\<open>GET /memory\<close>\<close>

definition memory_status :: "env \<Rightarrow> 'n world \<Rightarrow> (exn + 'n body) \<times> 'n world" where
  "memory_status ev w =
     (let w1 = emit [VirtualMemory] w in
      case virtual_memory_percent ev of
        Inl e \<Rightarrow> (Inl e, w1)
      | Inr percent \<Rightarrow>
          (Inr (MemoryBody (round2 ev (real (memory_info_rss ev) / 1024 ^ 3)) percent),
           emit [ProcessMemoryInfo] w1))"

subsection \<open>The request cycle\<close>

text \<open>The routes the decorators register.\<close>

datatype request =
    GetHealth
  | PostEmbed EmbedRequest
  | PostEmbedSentences BatchEmbedRequest
  | PostAnalyze AnalyzeRequest
  | GetMemory

fun run_task :: "env \<Rightarrow> task \<Rightarrow> 'n world \<Rightarrow> 'n world" where
  "run_task ev MemoryCleanup w = memory_cleanup ev w"

fun run_tasks :: "env \<Rightarrow> task list \<Rightarrow> 'n world \<Rightarrow> 'n world" where
  "run_tasks ev [] w = w"
| "run_tasks ev (t # ts) w = run_tasks ev ts (run_task ev t w)"

text \<open>
  One request, as the framework drives it: it calls the handler of the route (for
  \<open>/embed_sentences\<close> with a fresh, empty task queue), sends the response, and only then
  runs the tasks the handler queued; when the handler raised, the queue is dropped. The
  order "send, then run the queue" is the framework's contract for \<open>BackgroundTasks\<close>; it
  is written down here so that the place of the cleanup relative to the response can be
  stated.
\<close>

definition request_cycle :: "env \<Rightarrow> 'n world \<Rightarrow> request \<Rightarrow> (exn + 'n body) \<times> 'n world" where
  "request_cycle ev w r =
     (case r of
        GetHealth \<Rightarrow> (case health w of (res, w') \<Rightarrow> (res, emit [ResponseSent] w'))
      | PostEmbed q \<Rightarrow> (case embed_text ev w q of (res, w') \<Rightarrow> (res, emit [ResponseSent] w'))
      | PostEmbedSentences q \<Rightarrow>
          (case embed_batch ev w q [] of
             (Inl e, w', bt) \<Rightarrow> (Inl e, emit [ResponseSent] w')
           | (Inr b, w', bt) \<Rightarrow> (Inr b, run_tasks ev bt (emit [ResponseSent] w')))
      | PostAnalyze q \<Rightarrow> (case analyze_text w q of (res, w') \<Rightarrow> (res, emit [ResponseSent] w'))
      | GetMemory \<Rightarrow> (case memory_status ev w of (res, w') \<Rightarrow> (res, emit [ResponseSent] w')))"

text \<open>A sequence of requests, each with the surroundings it meets.\<close>

fun serve :: "'n world \<Rightarrow> (env \<times> request) list \<Rightarrow> 'n world" where
  "serve w [] = w"
| "serve w ((ev, r) # rs) = serve (snd (request_cycle ev w r)) rs"

text \<open>
  The life of the process: the module is imported, the start-up handler runs once, and
  requests are accepted only when it has returned; if it raises, none is served.
\<close>

definition service ::
  "bool \<Rightarrow> 'n loaders \<Rightarrow> (env \<times> request) list \<Rightarrow> (exn + unit) \<times> 'n world" where
  "service cuda ld rs =
     (case startup_event ld (initial_world cuda) of
        (Inl e, w) \<Rightarrow> (Inl e, w)
      | (Inr u, w) \<Rightarrow> (Inr (), serve w rs))"

text \<open>The events of the log that are calls of \<open>encode\<close>, and those that load a model.\<close>

fun is_encode :: "event \<Rightarrow> bool" where
  "is_encode (Encode m x b) = True"
| "is_encode _ = False"

fun is_load :: "event \<Rightarrow> bool" where
  "is_load (LoadSentenceTransformer m d) = True"
| "is_load (SpacyLoad m ds) = True"
| "is_load _ = False"

fun is_cleanup :: "event \<Rightarrow> bool" where
  "is_cleanup EmptyCache = True"
| "is_cleanup GcCollect = True"
| "is_cleanup _ = False"

text \<open>The events the log gained between an earlier world and a later one.\<close>

definition calls :: "'n world \<Rightarrow> 'n world \<Rightarrow> event list" where
  "calls w w' = drop (length (log w)) (log w')"

fun encode_inputs :: "event list \<Rightarrow> enc_input list" where
  "encode_inputs [] = []"
| "encode_inputs (Encode m x b # es) = x # encode_inputs es"
| "encode_inputs (e # es) = encode_inputs es"

subsection \<open>Stand-ins for the libraries, for concrete runs\<close>

text \<open>
  A model whose embedding of a string is the one-element vector holding its length, and
  whose batch call returns one such row for each string, in order.
\<close>

definition toy_encode :: "enc_input \<Rightarrow> nat option \<Rightarrow> exn + int ndarray" where
  "toy_encode x b =
     (case x of
        Str s \<Rightarrow> Inr (Array [Scalar (int (length s))])
      | StrList ss \<Rightarrow> Inr (Array (map (\<lambda>s. Array [Scalar (int (length s))]) ss)))"

definition toy_model :: "int SentenceTransformer" where
  "toy_model = \<lparr>encode = toy_encode\<rparr>"

text \<open>A model whose \<open>encode\<close> always raises.\<close>

definition broken_model :: "int SentenceTransformer" where
  "broken_model = \<lparr>encode = (\<lambda>x b. Inl (OtherException ''CUDA out of memory''))\<rparr>"

text \<open>
  A pipeline that, like spaCy's, refuses a text longer than its \<open>max_length\<close> of 1000000
  characters with a ValueError, and otherwise knows one entity.
\<close>

definition toy_nlp :: Language where
  "toy_nlp s =
     (if 1000000 < length s then Inl (OtherException ''[E088] Text exceeds maximum length'')
      else Inr \<lparr>ents = (if s = ''Honolulu''
                         then [\<lparr>ent_text = ''Honolulu'', ent_label = ''GPE''\<rparr>] else [])\<rparr>)"

definition toy_loaders :: "int loaders" where
  "toy_loaders =
     \<lparr>load_SentenceTransformer = (\<lambda>name d. Inr toy_model),
      spacy_load = (\<lambda>name disable. Inr toy_nlp)\<rparr>"

text \<open>The world after a start-up with these loaders, on a machine without CUDA.\<close>

definition toy_world :: "int world" where
  "toy_world = snd (startup_event toy_loaders (initial_world False))"

text \<open>The same world with the small model replaced by the one that raises.\<close>

definition broken_world :: "int world" where
  "broken_world =
     toy_world\<lparr>container :=
       (container toy_world)\<lparr>models := (models (container toy_world))(e5_small \<mapsto> broken_model)\<rparr>\<rparr>"

text \<open>Decimal digits of a number, for the framework's \<open>"{status_code}: {detail}"\<close>.\<close>

fun show_nat :: "nat \<Rightarrow> string" where
  "show_nat n =
     (if n < 10 then [''0123456789'' ! n]
      else show_nat (n div 10) @ [''0123456789'' ! (n mod 10)])"

definition toy_env :: "real \<Rightarrow> env" where
  "toy_env percent =
     \<lparr>cuda_is_available = False,
      virtual_memory_percent = Inr percent,
      memory_info_rss = 0,
      http_exception_str = (\<lambda>c d. show_nat c @ '': '' @ d),
      round2 = (\<lambda>x. x)\<rparr>"

section \<open>Properties\<close>

subsection \<open>Basic facts about the log and the stand-ins\<close>

lemma container_emit [simp]: "container (emit es w) = container w"
  by (simp add: emit_def)

lemma log_emit [simp]: "log (emit es w) = log w @ es"
  by (simp add: emit_def)

lemma calls_self [simp]: "calls w w = []"
  by (simp add: calls_def)

lemma calls_emit [simp]: "calls w (emit es w) = es"
  by (simp add: calls_def)

lemma calls_emit2 [simp]: "calls w (emit es2 (emit es1 w)) = es1 @ es2"
  by (simp add: calls_def)

lemma calls_emit3 [simp]: "calls w (emit es3 (emit es2 (emit es1 w))) = es1 @ es2 @ es3"
  by (simp add: calls_def)

lemma toy_world_eq:
  "toy_world =
     \<lparr>container =
        \<lparr>models = [e5_small \<mapsto> toy_model, e5_large_instruct \<mapsto> toy_model],
         nlp = Some toy_nlp, device = ''cpu''\<rparr>,
      log = [LoadSentenceTransformer e5_small ''cpu'',
             LoadSentenceTransformer e5_large_instruct ''cpu'',
             SpacyLoad ''en_core_web_sm'' [''parser'']]\<rparr>"
  by (simp add: toy_world_def startup_event_def load_models_def initial_world_def
        ModelContainer_init_def toy_loaders_def emit_def Let_def)

lemma toy_models_nope: "models (container toy_world) ''nope'' = None"
  by (simp add: toy_world_eq e5_small_def e5_large_instruct_def)

lemma toy_models_small:
  "models (container toy_world) ''intfloat/multilingual-e5-small'' = Some toy_model"
  by (simp add: toy_world_eq e5_small_def e5_large_instruct_def)

lemma toy_embed_aloha:
  "fst (embed_text (toy_env 42) toy_world
         \<lparr>e_text = ''aloha'', e_prefix = ''query: '',
          e_model = ''intfloat/multilingual-e5-small''\<rparr>)
     = Inr (EmbedBody (PyList [PyNum 12]) 1)"
  by (simp add: embed_text_def embed_text_try_def Let_def toy_models_small toy_model_def
        toy_encode_def)

lemma toy_batch_two:
  "fst (embed_batch (toy_env 42) toy_world
         \<lparr>sentences = [''a'', ''bcd''], b_prefix = ''q: '',
          b_model = ''intfloat/multilingual-e5-small''\<rparr> [])
     = Inr (BatchBody (PyList [PyList [PyNum 4], PyList [PyNum 6]]) 2)"
  by (simp add: embed_batch_def embed_batch_try_def Let_def toy_models_small toy_model_def
        toy_encode_def toy_env_def)

lemma toy_analyze_honolulu:
  "fst (analyze_text toy_world \<lparr>sentence = ''Honolulu''\<rparr>)
     = Inr (AnalyzeBody 1 [(''Honolulu'', ''GPE'')])"
  by (simp add: analyze_text_def Let_def toy_world_eq toy_nlp_def)

subsection \<open>Rejections\<close>

text \<open>
  What \<open>embed_text\<close> does with a model name the container does not hold: the 400 raised
  inside the \<open>try\<close> block is caught by the handler's own \<open>except Exception\<close> and leaves
  as a 500 whose detail is \<open>str\<close> of the 400; \<open>encode\<close> is not called.
\<close>

lemma embed_text_unknown:
  "models (container w) (e_model request) = None \<Longrightarrow>
   embed_text ev w request =
     (Inl (HTTPException 500
            (http_exception_str ev 400 (''Model '' @ e_model request @ '' not loaded''))),
      emit [ModelsGet (e_model request)] w)"
  by (simp add: embed_text_def embed_text_try_def Let_def)

text \<open>
  C1. The claim is that an embed request naming a model the container does not hold is
  answered with a 400-class error and without a call of \<open>encode\<close>. On the code the answer
  is a 500: here the request for the model \<open>nope\<close>, which is not loaded, with the
  framework's \<open>str\<close> of an \<open>HTTPException\<close>. The only call made is the lookup.
\<close>

theorem embed_text_unknown_model_is_500:
  "models (container toy_world) ''nope'' = None \<and>
   embed_text (toy_env 42) toy_world
       \<lparr>e_text = ''aloha'', e_prefix = ''query: '', e_model = ''nope''\<rparr>
     = (Inl (HTTPException 500 ''400: Model nope not loaded''),
        emit [ModelsGet ''nope''] toy_world)"
  by (simp add: toy_models_nope embed_text_unknown toy_env_def)

text \<open>
  The two embedding handlers report an exception of \<open>encode\<close> as a 500 with \<open>str(e)\<close> as
  its detail; \<open>analyze_text\<close> has no handler of its own, and the exception of the pipeline
  leaves it unchanged.
\<close>

lemma embed_text_encode_raises:
  "models (container w) (e_model request) = Some m \<Longrightarrow>
   encode m (Str (e_prefix request @ e_text request)) None = Inl e \<Longrightarrow>
   fst (embed_text ev w request) = Inl (HTTPException 500 (str_exn ev e))"
  by (simp add: embed_text_def embed_text_try_def Let_def)

lemma embed_batch_encode_raises:
  "sentences request \<noteq> [] \<Longrightarrow> models (container w) (b_model request) = Some m \<Longrightarrow>
   encode m (StrList (map (\<lambda>s. b_prefix request @ s) (sentences request))) (Some 32) = Inl e \<Longrightarrow>
   fst (embed_batch ev w request bt) = Inl (HTTPException 500 (str_exn ev e))"
  by (simp add: embed_batch_def embed_batch_try_def Let_def)

lemma analyze_text_raises:
  "nlp (container w) = Some p \<Longrightarrow> p (sentence request) = Inl e \<Longrightarrow>
   fst (analyze_text w request) = Inl e"
  by (simp add: analyze_text_def Let_def)

text \<open>
  C2. The claim is that an exception raised in the encode or analyze step reaches the
  caller as a 5xx response whose detail is the message of the exception. For \<open>analyze\<close> the
  code does not do this: on a sentence of 1000001 characters the pipeline raises, and what
  leaves \<open>analyze_text\<close> is that exception itself, not an \<open>HTTPException\<close> with a status
  and a detail; \<open>embed_text\<close>, on a model whose \<open>encode\<close> raises, does answer with a 500
  that carries the message.
\<close>

theorem analyze_text_exception_not_a_500:
  "fst (analyze_text toy_world \<lparr>sentence = replicate 1000001 CHR ''a''\<rparr>)
     = Inl (OtherException ''[E088] Text exceeds maximum length'')
   \<and> fst (embed_text (toy_env 42) broken_world
           \<lparr>e_text = ''aloha'', e_prefix = ''query: '',
            e_model = ''intfloat/multilingual-e5-small''\<rparr>)
     = Inl (HTTPException 500 ''CUDA out of memory'')"
  by (simp add: analyze_text_def toy_world_eq toy_nlp_def Let_def embed_text_def
        embed_text_try_def broken_world_def broken_model_def e5_small_def)

text \<open>
  C3. A batch request with an empty list of sentences is rejected with a 400, whatever its
  prefix and model are; the world is returned as it was, so the log has gained neither a
  lookup nor a call of \<open>encode\<close>, and the task queue is untouched.
\<close>

theorem embed_batch_empty_rejected:
  "sentences request = [] \<Longrightarrow>
   embed_batch ev w request bt = (Inl (HTTPException 400 ''Empty sentence list''), w, bt)"
  by (simp add: embed_batch_def)

theorem embed_batch_empty_rejected_witness:
  "sentences \<lparr>sentences = [], b_prefix = ''query: '', b_model = ''nope''\<rparr> = [] \<and>
   embed_batch (toy_env 91) toy_world
       \<lparr>sentences = [], b_prefix = ''query: '', b_model = ''nope''\<rparr> []
     = (Inl (HTTPException 400 ''Empty sentence list''), toy_world, [])"
  using embed_batch_empty_rejected
          [of "\<lparr>sentences = [], b_prefix = ''query: '', b_model = ''nope''\<rparr>"
              "toy_env 91" toy_world "[]"]
  by simp

subsection \<open>Batch embedding\<close>

text \<open>
  C4. As stated, for every batch request with at least one sentence and a loaded model,
  the claim does not hold: when \<open>encode\<close> raises there is no vector in the response at
  all. What the handler does for such a request is this. It calls \<open>encode\<close> on the
  prefixed sentences; when that returns an array with a first axis and the memory probe
  answers, the response holds exactly the rows of that array, in their order, and
  \<open>count\<close> is the number of rows, so it is one vector for each sentence, in input order,
  whenever the library returned one row for each string it was given. When \<open>encode\<close> or
  the probe raises, or the array has no first axis, the response is a 500.
\<close>

theorem embed_batch_returns_encode_rows:
  assumes "sentences request \<noteq> []"
    and "models (container w) (b_model request) = Some m"
  shows "fst (embed_batch ev w request bt)
           = (case encode m (StrList (map (\<lambda>s. b_prefix request @ s) (sentences request)))
                     (Some 32) of
                Inl e \<Rightarrow> Inl (HTTPException 500 (str_exn ev e))
              | Inr a \<Rightarrow>
                  (case virtual_memory_percent ev of
                     Inl e \<Rightarrow> Inl (HTTPException 500 (str_exn ev e))
                   | Inr p \<Rightarrow>
                       (case a of
                          Scalar x \<Rightarrow> Inl (HTTPException 500 ''len() of unsized object'')
                        | Array rows \<Rightarrow>
                            Inr (BatchBody (PyList (map tolist rows)) (length rows)))))
     \<and> (\<forall>rows p.
           encode m (StrList (map (\<lambda>s. b_prefix request @ s) (sentences request))) (Some 32)
             = Inr (Array rows)
           \<and> virtual_memory_percent ev = Inr p
           \<and> length rows = length (sentences request) \<longrightarrow>
           (\<exists>vs. fst (embed_batch ev w request bt)
                    = Inr (BatchBody (PyList vs) (length (sentences request)))
                \<and> length vs = length (sentences request)
                \<and> (\<forall>i < length (sentences request). vs ! i = tolist (rows ! i))))"
proof (intro conjI allI impI)
  show "fst (embed_batch ev w request bt)
           = (case encode m (StrList (map (\<lambda>s. b_prefix request @ s) (sentences request)))
                     (Some 32) of
                Inl e \<Rightarrow> Inl (HTTPException 500 (str_exn ev e))
              | Inr a \<Rightarrow>
                  (case virtual_memory_percent ev of
                     Inl e \<Rightarrow> Inl (HTTPException 500 (str_exn ev e))
                   | Inr p \<Rightarrow>
                       (case a of
                          Scalar x \<Rightarrow> Inl (HTTPException 500 ''len() of unsized object'')
                        | Array rows \<Rightarrow>
                            Inr (BatchBody (PyList (map tolist rows)) (length rows)))))"
    using assms
    by (simp add: embed_batch_def embed_batch_try_def Let_def
             split: sum.split ndarray.split)
next
  fix rows p
  assume "encode m (StrList (map (\<lambda>s. b_prefix request @ s) (sentences request))) (Some 32)
             = Inr (Array rows)
           \<and> virtual_memory_percent ev = Inr p
           \<and> length rows = length (sentences request)"
  with assms
  show "\<exists>vs. fst (embed_batch ev w request bt)
                    = Inr (BatchBody (PyList vs) (length (sentences request)))
                \<and> length vs = length (sentences request)
                \<and> (\<forall>i < length (sentences request). vs ! i = tolist (rows ! i))"
    by (simp add: embed_batch_def embed_batch_try_def Let_def)
qed

theorem embed_batch_returns_encode_rows_witness:
  "fst (embed_batch (toy_env 42) toy_world
         \<lparr>sentences = [''a'', ''bcd'', ''ef''], b_prefix = ''q: '',
          b_model = ''intfloat/multilingual-e5-small''\<rparr> [])
     = Inr (BatchBody (PyList [PyList [PyNum 4], PyList [PyNum 6], PyList [PyNum 5]]) 3)"
proof -
  let ?rq = "\<lparr>sentences = [''a'', ''bcd'', ''ef''], b_prefix = ''q: '',
              b_model = ''intfloat/multilingual-e5-small''\<rparr>"
  have 1: "sentences ?rq \<noteq> []" by simp
  have 2: "models (container toy_world) (b_model ?rq) = Some toy_model"
    by (simp add: toy_models_small)
  from embed_batch_returns_encode_rows [OF 1 2, of "toy_env 42" "[]"]
  show ?thesis
    by (simp add: toy_model_def toy_encode_def toy_env_def)
qed

text \<open>
  The request on which the claim as stated fails: three sentences, a model that is loaded,
  and an \<open>encode\<close> that raises. The response is a 500 and holds no vector.
\<close>

theorem embed_batch_encode_failure_no_vectors:
  "sentences \<lparr>sentences = [''a'', ''bcd'', ''ef''], b_prefix = ''q: '',
              b_model = ''intfloat/multilingual-e5-small''\<rparr> \<noteq> []
   \<and> models (container broken_world) ''intfloat/multilingual-e5-small'' = Some broken_model
   \<and> fst (embed_batch (toy_env 42) broken_world
            \<lparr>sentences = [''a'', ''bcd'', ''ef''], b_prefix = ''q: '',
             b_model = ''intfloat/multilingual-e5-small''\<rparr> [])
       = Inl (HTTPException 500 ''CUDA out of memory'')"
  by (simp add: embed_batch_def embed_batch_try_def Let_def broken_world_def broken_model_def
        e5_small_def)

text \<open>
  C5. What \<open>encode\<close> is given is the prefix followed directly by the text. For a loaded
  model, \<open>embed_text\<close> makes one call, on the one string \<open>prefix @ text\<close>, and its response
  is made from what \<open>encode\<close> returns for exactly that string; for a model that is not
  loaded it calls nothing. \<open>embed_batch\<close> makes one call, on the list in which the prefix
  of the request is put before each sentence, in order, and its response is made from
  what \<open>encode\<close> returns for exactly that list. This holds for every model, so a handler
  that gave \<open>encode\<close> anything else would answer differently for some model.
\<close>

theorem encode_receives_prefix_then_text:
  "(case models (container w) (e_model request) of
      None \<Rightarrow> encode_inputs (calls w (snd (embed_text ev w request))) = []
    | Some m \<Rightarrow>
        encode_inputs (calls w (snd (embed_text ev w request)))
          = [Str (e_prefix request @ e_text request)]
        \<and> fst (embed_text ev w request)
          = (case encode m (Str (e_prefix request @ e_text request)) None of
               Inl e \<Rightarrow> Inl (HTTPException 500 (str_exn ev e))
             | Inr a \<Rightarrow>
                 (case len_ndarray a of
                    Inl e \<Rightarrow> Inl (HTTPException 500 (str_exn ev e))
                  | Inr n \<Rightarrow> Inr (EmbedBody (tolist a) n))))
   \<and> (if sentences brequest = []
       then encode_inputs (calls w (fst (snd (embed_batch ev w brequest bt)))) = []
       else case models (container w) (b_model brequest) of
          None \<Rightarrow> encode_inputs (calls w (fst (snd (embed_batch ev w brequest bt)))) = []
        | Some m \<Rightarrow>
            encode_inputs (calls w (fst (snd (embed_batch ev w brequest bt))))
              = [StrList (map (\<lambda>s. b_prefix brequest @ s) (sentences brequest))]
            \<and> fst (embed_batch ev w brequest bt)
              = (case encode m (StrList (map (\<lambda>s. b_prefix brequest @ s) (sentences brequest)))
                        (Some 32) of
                   Inl e \<Rightarrow> Inl (HTTPException 500 (str_exn ev e))
                 | Inr a \<Rightarrow>
                     (case virtual_memory_percent ev of
                        Inl e \<Rightarrow> Inl (HTTPException 500 (str_exn ev e))
                      | Inr p \<Rightarrow>
                          (case len_ndarray a of
                             Inl e \<Rightarrow> Inl (HTTPException 500 (str_exn ev e))
                           | Inr n \<Rightarrow> Inr (BatchBody (tolist a) n)))))"
proof (intro conjI)
  show "case models (container w) (e_model request) of
      None \<Rightarrow> encode_inputs (calls w (snd (embed_text ev w request))) = []
    | Some m \<Rightarrow>
        encode_inputs (calls w (snd (embed_text ev w request)))
          = [Str (e_prefix request @ e_text request)]
        \<and> fst (embed_text ev w request)
          = (case encode m (Str (e_prefix request @ e_text request)) None of
               Inl e \<Rightarrow> Inl (HTTPException 500 (str_exn ev e))
             | Inr a \<Rightarrow>
                 (case len_ndarray a of
                    Inl e \<Rightarrow> Inl (HTTPException 500 (str_exn ev e))
                  | Inr n \<Rightarrow> Inr (EmbedBody (tolist a) n)))"
    by (simp add: embed_text_def embed_text_try_def Let_def split: option.split sum.split)
next
  show "if sentences brequest = []
       then encode_inputs (calls w (fst (snd (embed_batch ev w brequest bt)))) = []
       else case models (container w) (b_model brequest) of
          None \<Rightarrow> encode_inputs (calls w (fst (snd (embed_batch ev w brequest bt)))) = []
        | Some m \<Rightarrow>
            encode_inputs (calls w (fst (snd (embed_batch ev w brequest bt))))
              = [StrList (map (\<lambda>s. b_prefix brequest @ s) (sentences brequest))]
            \<and> fst (embed_batch ev w brequest bt)
              = (case encode m (StrList (map (\<lambda>s. b_prefix brequest @ s) (sentences brequest)))
                        (Some 32) of
                   Inl e \<Rightarrow> Inl (HTTPException 500 (str_exn ev e))
                 | Inr a \<Rightarrow>
                     (case virtual_memory_percent ev of
                        Inl e \<Rightarrow> Inl (HTTPException 500 (str_exn ev e))
                      | Inr p \<Rightarrow>
                          (case len_ndarray a of
                             Inl e \<Rightarrow> Inl (HTTPException 500 (str_exn ev e))
                           | Inr n \<Rightarrow> Inr (BatchBody (tolist a) n))))"
    by (simp add: embed_batch_def embed_batch_try_def Let_def split: option.split sum.split)
qed

theorem encode_receives_prefix_then_text_witness:
  "encode_inputs (calls toy_world (snd (embed_text (toy_env 42) toy_world
       \<lparr>e_text = ''aloha'', e_prefix = ''query: '',
        e_model = ''intfloat/multilingual-e5-small''\<rparr>)))
     = [Str ''query: aloha'']
   \<and> fst (embed_text (toy_env 42) toy_world
       \<lparr>e_text = ''aloha'', e_prefix = ''query: '',
        e_model = ''intfloat/multilingual-e5-small''\<rparr>)
     = Inr (EmbedBody (PyList [PyNum 12]) 1)
   \<and> encode_inputs (calls toy_world (fst (snd (embed_batch (toy_env 42) toy_world
       \<lparr>sentences = [''a'', ''bcd''], b_prefix = ''q: '',
        b_model = ''intfloat/multilingual-e5-small''\<rparr> []))))
     = [StrList [''q: a'', ''q: bcd'']]
   \<and> fst (embed_batch (toy_env 42) toy_world
       \<lparr>sentences = [''a'', ''bcd''], b_prefix = ''q: '',
        b_model = ''intfloat/multilingual-e5-small''\<rparr> [])
     = Inr (BatchBody (PyList [PyList [PyNum 4], PyList [PyNum 6]]) 2)"
  using encode_receives_prefix_then_text [where w = toy_world and ev = "toy_env 42" and bt = "[]"
      and request = "\<lparr>e_text = ''aloha'', e_prefix = ''query: '',
        e_model = ''intfloat/multilingual-e5-small''\<rparr>"
      and brequest = "\<lparr>sentences = [''a'', ''bcd''], b_prefix = ''q: '',
        b_model = ''intfloat/multilingual-e5-small''\<rparr>"]
  by (simp add: toy_models_small toy_model_def toy_encode_def toy_env_def)

text \<open>
  C8. For a batch request with at least one sentence and a loaded model, the handler makes
  exactly one call of \<open>encode\<close>: on the whole list of prefixed sentences, with
  \<open>batch_size=32\<close>. The response hangs on that call and on no other: if it raises, the
  response is the 500 with its message; if the response is a success, its body is made
  from the array that call returned.
\<close>

theorem embed_batch_single_call_batch_size_32:
  assumes "sentences request \<noteq> []"
    and "models (container w) (b_model request) = Some m"
  shows "filter is_encode (calls w (fst (snd (embed_batch ev w request bt))))
           = [Encode (b_model request)
                (StrList (map (\<lambda>s. b_prefix request @ s) (sentences request))) (Some 32)]
     \<and> (\<forall>e. encode m (StrList (map (\<lambda>s. b_prefix request @ s) (sentences request))) (Some 32)
               = Inl e \<longrightarrow>
            fst (embed_batch ev w request bt) = Inl (HTTPException 500 (str_exn ev e)))
     \<and> (\<forall>b. fst (embed_batch ev w request bt) = Inr b \<longrightarrow>
            (\<exists>a n. encode m (StrList (map (\<lambda>s. b_prefix request @ s) (sentences request)))
                       (Some 32) = Inr a
                  \<and> len_ndarray a = Inr n \<and> b = BatchBody (tolist a) n))"
proof (intro conjI allI impI)
  show "filter is_encode (calls w (fst (snd (embed_batch ev w request bt))))
           = [Encode (b_model request)
                (StrList (map (\<lambda>s. b_prefix request @ s) (sentences request))) (Some 32)]"
    using assms
    by (simp add: embed_batch_def embed_batch_try_def Let_def split: sum.split)
next
  fix e
  assume "encode m (StrList (map (\<lambda>s. b_prefix request @ s) (sentences request))) (Some 32)
            = Inl e"
  with assms show "fst (embed_batch ev w request bt) = Inl (HTTPException 500 (str_exn ev e))"
    by (simp add: embed_batch_def embed_batch_try_def Let_def)
next
  fix b
  assume "fst (embed_batch ev w request bt) = Inr b"
  with assms
  show "\<exists>a n. encode m (StrList (map (\<lambda>s. b_prefix request @ s) (sentences request)))
                       (Some 32) = Inr a
                  \<and> len_ndarray a = Inr n \<and> b = BatchBody (tolist a) n"
    by (auto simp: embed_batch_def embed_batch_try_def Let_def split: sum.splits)
qed

theorem embed_batch_single_call_batch_size_32_witness:
  "filter is_encode (calls toy_world (fst (snd (embed_batch (toy_env 42) toy_world
       \<lparr>sentences = [''a'', ''bcd''], b_prefix = ''q: '',
        b_model = ''intfloat/multilingual-e5-small''\<rparr> []))))
     = [Encode ''intfloat/multilingual-e5-small'' (StrList [''q: a'', ''q: bcd'']) (Some 32)]
   \<and> (\<exists>a n. encode toy_model (StrList [''q: a'', ''q: bcd'']) (Some 32) = Inr a
          \<and> len_ndarray a = Inr n
          \<and> BatchBody (PyList [PyList [PyNum 4], PyList [PyNum 6]]) 2 = BatchBody (tolist a) n)"
  using embed_batch_single_call_batch_size_32 [of
      "\<lparr>sentences = [''a'', ''bcd''], b_prefix = ''q: '',
        b_model = ''intfloat/multilingual-e5-small''\<rparr>"
      toy_world toy_model "toy_env 42" "[]"] toy_batch_two
  by (simp add: toy_models_small)

subsection \<open>Responses\<close>

lemma len_ndarray_tolist:
  "len_ndarray a = Inr n \<Longrightarrow> \<exists>xs. tolist a = PyList xs \<and> n = length xs"
  by (cases a) auto

text \<open>
  C10. In a successful response the number equals the length of the list beside it:
  \<open>dimensions\<close> and \<open>embedding\<close> for embed, \<open>count\<close> and \<open>embeddings\<close> for batch embed,
  \<open>entity_count\<close> and \<open>entities\<close> for analyze.
\<close>

theorem count_fields_equal_list_lengths:
  "(fst (embed_text ev w request) = Inr b1 \<longrightarrow>
      (\<exists>xs. b1 = EmbedBody (PyList xs) (length xs)))
   \<and> (fst (embed_batch ev w brequest bt) = Inr b2 \<longrightarrow>
      (\<exists>xs. b2 = BatchBody (PyList xs) (length xs)))
   \<and> (fst (analyze_text w arequest) = Inr b3 \<longrightarrow>
      (\<exists>es. b3 = AnalyzeBody (length es) es))"
proof (intro conjI impI)
  assume "fst (embed_text ev w request) = Inr b1"
  then show "\<exists>xs. b1 = EmbedBody (PyList xs) (length xs)"
    by (auto simp: embed_text_def embed_text_try_def Let_def
             split: option.splits sum.splits dest: len_ndarray_tolist)
next
  assume "fst (embed_batch ev w brequest bt) = Inr b2"
  then show "\<exists>xs. b2 = BatchBody (PyList xs) (length xs)"
    by (auto simp: embed_batch_def embed_batch_try_def Let_def
             split: option.splits sum.splits if_splits dest: len_ndarray_tolist)
next
  assume "fst (analyze_text w arequest) = Inr b3"
  then show "\<exists>es. b3 = AnalyzeBody (length es) es"
    by (auto simp: analyze_text_def Let_def split: option.splits sum.splits)
qed

theorem count_fields_equal_list_lengths_witness:
  "(\<exists>xs. EmbedBody (PyList [PyNum (12::int)]) 1 = EmbedBody (PyList xs) (length xs))
   \<and> (\<exists>xs. BatchBody (PyList [PyList [PyNum (4::int)], PyList [PyNum 6]]) 2
              = BatchBody (PyList xs) (length xs))
   \<and> (\<exists>es. (AnalyzeBody 1 [(''Honolulu'', ''GPE'')] :: int body) = AnalyzeBody (length es) es)"
  using count_fields_equal_list_lengths [of "toy_env 42" toy_world
      "\<lparr>e_text = ''aloha'', e_prefix = ''query: '',
        e_model = ''intfloat/multilingual-e5-small''\<rparr>"
      "EmbedBody (PyList [PyNum 12]) 1"
      "\<lparr>sentences = [''a'', ''bcd''], b_prefix = ''q: '',
        b_model = ''intfloat/multilingual-e5-small''\<rparr>"
      "[]" "BatchBody (PyList [PyList [PyNum 4], PyList [PyNum 6]]) 2"
      "\<lparr>sentence = ''Honolulu''\<rparr>" "AnalyzeBody 1 [(''Honolulu'', ''GPE'')]"]
    toy_embed_aloha toy_batch_two toy_analyze_honolulu
  by simp

subsection \<open>Determinism\<close>

lemma str_exn_cong:
  "http_exception_str ev1 = http_exception_str ev2 \<Longrightarrow> str_exn ev1 e = str_exn ev2 e"
  by (cases e) simp_all

lemma embed_text_container [simp]: "container (snd (embed_text ev w request)) = container w"
  by (simp add: embed_text_def embed_text_try_def Let_def split: option.split sum.split)

text \<open>
  C9. Two embed requests with the same text, prefix and model, run against the same
  container (whose \<open>encode\<close> is a function of its arguments), get the same response,
  whatever else differs between the two runs: the log so far, the memory readings.
\<close>

theorem embed_text_deterministic:
  assumes "e_text r1 = e_text r2" and "e_prefix r1 = e_prefix r2" and "e_model r1 = e_model r2"
    and "container w1 = container w2"
    and "http_exception_str ev1 = http_exception_str ev2"
  shows "fst (embed_text ev1 w1 r1) = fst (embed_text ev2 w2 r2)"
  using assms
  by (simp add: embed_text_def embed_text_try_def Let_def str_exn_cong [of ev1 ev2]
           split: option.split sum.split)

theorem embed_text_deterministic_witness:
  "fst (embed_text (toy_env 91)
          (snd (embed_text (toy_env 42) toy_world
                 \<lparr>e_text = ''aloha'', e_prefix = ''query: '',
                  e_model = ''intfloat/multilingual-e5-small''\<rparr>))
          \<lparr>e_text = ''aloha'', e_prefix = ''query: '',
           e_model = ''intfloat/multilingual-e5-small''\<rparr>)
     = Inr (EmbedBody (PyList [PyNum 12]) 1)"
proof -
  let ?rq = "\<lparr>e_text = ''aloha'', e_prefix = ''query: '',
              e_model = ''intfloat/multilingual-e5-small''\<rparr>"
  have c: "container (snd (embed_text (toy_env 42) toy_world ?rq)) = container toy_world"
    by simp
  have h: "http_exception_str (toy_env 91) = http_exception_str (toy_env 42)"
    by (simp add: toy_env_def)
  have "fst (embed_text (toy_env 91) (snd (embed_text (toy_env 42) toy_world ?rq)) ?rq)
          = fst (embed_text (toy_env 42) toy_world ?rq)"
    by (rule embed_text_deterministic [OF refl refl refl c h])
  then show ?thesis by (simp add: toy_embed_aloha)
qed

subsection \<open>The container is filled once and then only read\<close>

lemma health_container [simp]: "container (snd (health w)) = container w"
  by (simp add: health_def)

lemma embed_batch_container [simp]:
  "container (fst (snd (embed_batch ev w request bt))) = container w"
  by (simp add: embed_batch_def embed_batch_try_def Let_def split: option.split sum.split)

lemma analyze_text_container [simp]: "container (snd (analyze_text w request)) = container w"
  by (simp add: analyze_text_def Let_def split: option.split sum.split)

lemma memory_status_container [simp]: "container (snd (memory_status ev w)) = container w"
  by (simp add: memory_status_def Let_def split: sum.split)

lemma memory_cleanup_container [simp]: "container (memory_cleanup ev w) = container w"
  by (simp add: memory_cleanup_def Let_def)

lemma run_tasks_container [simp]: "container (run_tasks ev ts w) = container w"
proof (induction ts arbitrary: w)
  case Nil
  show ?case by simp
next
  case (Cons t ts)
  show ?case by (cases t) (simp add: Cons.IH)
qed

lemma request_cycle_container: "container (snd (request_cycle ev w r)) = container w"
  by (cases r)
     (simp_all add: request_cycle_def case_prod_beta split: sum.split)

lemma serve_container: "container (serve w rs) = container w"
proof (induction rs arbitrary: w)
  case Nil
  show ?case by simp
next
  case (Cons a rs)
  obtain ev r where a: "a = (ev, r)" by (cases a)
  show ?case by (simp add: a Cons.IH request_cycle_container)
qed

lemma health_loads [simp]: "filter is_load (log (snd (health w))) = filter is_load (log w)"
  by (simp add: health_def)

lemma embed_text_loads [simp]:
  "filter is_load (log (snd (embed_text ev w q))) = filter is_load (log w)"
  by (simp add: embed_text_def embed_text_try_def Let_def split: option.split sum.split)

lemma embed_batch_loads [simp]:
  "filter is_load (log (fst (snd (embed_batch ev w q bt)))) = filter is_load (log w)"
  by (simp add: embed_batch_def embed_batch_try_def Let_def split: option.split sum.split)

lemma analyze_text_loads [simp]:
  "filter is_load (log (snd (analyze_text w q))) = filter is_load (log w)"
  by (simp add: analyze_text_def Let_def split: option.split sum.split)

lemma memory_status_loads [simp]:
  "filter is_load (log (snd (memory_status ev w))) = filter is_load (log w)"
  by (simp add: memory_status_def Let_def split: sum.split)

lemma memory_cleanup_loads [simp]:
  "filter is_load (log (memory_cleanup ev w)) = filter is_load (log w)"
  by (simp add: memory_cleanup_def Let_def)

lemma run_tasks_loads [simp]:
  "filter is_load (log (run_tasks ev ts w)) = filter is_load (log w)"
proof (induction ts arbitrary: w)
  case Nil
  show ?case by simp
next
  case (Cons t ts)
  show ?case by (cases t) (simp add: Cons.IH)
qed

lemma request_cycle_loads:
  "filter is_load (log (snd (request_cycle ev w r))) = filter is_load (log w)"
  by (cases r)
     (simp_all add: request_cycle_def case_prod_beta split: sum.split)

lemma serve_loads: "filter is_load (log (serve w rs)) = filter is_load (log w)"
proof (induction rs arbitrary: w)
  case Nil
  show ?case by simp
next
  case (Cons a rs)
  obtain ev r where a: "a = (ev, r)" by (cases a)
  show ?case by (simp add: a Cons.IH request_cycle_loads)
qed

lemma e5_names_differ: "e5_small \<noteq> e5_large_instruct"
  by (simp add: e5_small_def e5_large_instruct_def)

lemma startup_ok:
  assumes "startup_event ld (initial_world cuda) = (Inr u, w)"
  shows "filter is_load (log w)
           = [LoadSentenceTransformer e5_small (if cuda then ''cuda'' else ''cpu''),
              LoadSentenceTransformer e5_large_instruct (if cuda then ''cuda'' else ''cpu''),
              SpacyLoad ''en_core_web_sm'' [''parser'']]"
    and "dom (models (container w)) = {e5_small, e5_large_instruct}"
    and "nlp (container w) \<noteq> None"
    and "device (container w) = (if cuda then ''cuda'' else ''cpu'')"
  using assms
  by (auto simp: startup_event_def load_models_def initial_world_def ModelContainer_init_def
        Let_def emit_def split: sum.splits if_splits)

lemma toy_startup: "startup_event toy_loaders (initial_world False) = (Inr (), toy_world)"
  by (simp add: toy_world_def startup_event_def load_models_def toy_loaders_def Let_def)




subsection \<open>The deferred cleanup\<close>

lemma log_calls: "log w' = log w @ es \<Longrightarrow> calls w w' = es"
  by (simp add: calls_def)

lemma embed_batch_success:
  assumes "fst (embed_batch ev w request bt) = Inr b"
  shows "\<exists>m a p n. sentences request \<noteq> []
           \<and> models (container w) (b_model request) = Some m
           \<and> encode m (StrList (map (\<lambda>s. b_prefix request @ s) (sentences request))) (Some 32) = Inr a
           \<and> virtual_memory_percent ev = Inr p
           \<and> len_ndarray a = Inr n"
  using assms
  by (auto simp: embed_batch_def embed_batch_try_def Let_def
           split: if_splits option.splits sum.splits)

lemma embed_batch_on_success:
  assumes "sentences request \<noteq> []"
    and "models (container w) (b_model request) = Some m"
    and "encode m (StrList (map (\<lambda>s. b_prefix request @ s) (sentences request))) (Some 32) = Inr a"
    and "virtual_memory_percent ev = Inr p"
    and "len_ndarray a = Inr n"
  shows "embed_batch ev w request bt
           = (Inr (BatchBody (tolist a) n),
              emit [VirtualMemory]
                (emit [Encode (b_model request)
                         (StrList (map (\<lambda>s. b_prefix request @ s) (sentences request))) (Some 32)]
                   (emit [ModelsGet (b_model request)] w)),
              if 80 < p then bt @ [MemoryCleanup] else bt)"
  using assms by (simp add: embed_batch_def embed_batch_try_def Let_def)

text \<open>
  C6. After a successful batch embed the handler has put \<open>memory_cleanup\<close> on the task
  queue exactly when the memory reading is above 80 (and otherwise left the queue as it
  was); the handler itself makes no cleanup call. In the request cycle the cleanup calls
  (the GPU cache release when CUDA is available, then the collection) come after the
  response has been sent, and there are none when the reading is 80 or below.
\<close>

theorem cleanup_deferred_iff_memory_above_80:
  assumes "fst (embed_batch ev w request bt) = Inr b"
  shows "\<exists>p. virtual_memory_percent ev = Inr p
     \<and> (snd (snd (embed_batch ev w request bt)) = bt @ [MemoryCleanup]) = (80 < p)
     \<and> (snd (snd (embed_batch ev w request bt)) = bt) = (\<not> 80 < p)
     \<and> filter is_cleanup (calls w (fst (snd (embed_batch ev w request bt)))) = []
     \<and> calls w (snd (request_cycle ev w (PostEmbedSentences request)))
         = calls w (fst (snd (embed_batch ev w request bt))) @ [ResponseSent]
           @ (if 80 < p
              then (if cuda_is_available ev then [EmptyCache] else []) @ [GcCollect]
              else [])"
proof -
  from embed_batch_success [OF assms] obtain m a p n
    where h: "sentences request \<noteq> []"
      "models (container w) (b_model request) = Some m"
      "encode m (StrList (map (\<lambda>s. b_prefix request @ s) (sentences request))) (Some 32) = Inr a"
      "virtual_memory_percent ev = Inr p"
      "len_ndarray a = Inr n"
    by blast
  note eq = embed_batch_on_success [OF h]
  have 1: "(snd (snd (embed_batch ev w request bt)) = bt @ [MemoryCleanup]) = (80 < p)"
    by (simp add: eq)
  have 2: "(snd (snd (embed_batch ev w request bt)) = bt) = (\<not> 80 < p)"
    by (simp add: eq)
  have 3: "filter is_cleanup (calls w (fst (snd (embed_batch ev w request bt)))) = []"
    by (simp add: eq)
  have 4: "calls w (snd (request_cycle ev w (PostEmbedSentences request)))
         = calls w (fst (snd (embed_batch ev w request bt))) @ [ResponseSent]
           @ (if 80 < p
              then (if cuda_is_available ev then [EmptyCache] else []) @ [GcCollect]
              else [])"
    by (simp add: eq request_cycle_def memory_cleanup_def log_calls)
  from h(4) 1 2 3 4 show ?thesis by blast
qed

theorem cleanup_deferred_iff_memory_above_80_witness:
  "snd (snd (embed_batch ((toy_env 91)\<lparr>cuda_is_available := True\<rparr>) toy_world
         \<lparr>sentences = [''a'', ''bcd''], b_prefix = ''q: '',
          b_model = ''intfloat/multilingual-e5-small''\<rparr> [])) = [MemoryCleanup]
   \<and> calls toy_world (snd (request_cycle ((toy_env 91)\<lparr>cuda_is_available := True\<rparr>) toy_world
         (PostEmbedSentences \<lparr>sentences = [''a'', ''bcd''], b_prefix = ''q: '',
          b_model = ''intfloat/multilingual-e5-small''\<rparr>)))
     = [ModelsGet ''intfloat/multilingual-e5-small'',
        Encode ''intfloat/multilingual-e5-small'' (StrList [''q: a'', ''q: bcd'']) (Some 32),
        VirtualMemory, ResponseSent, EmptyCache, GcCollect]"
proof -
  let ?ev = "(toy_env 91)\<lparr>cuda_is_available := True\<rparr>"
  let ?bq = "\<lparr>sentences = [''a'', ''bcd''], b_prefix = ''q: '',
              b_model = ''intfloat/multilingual-e5-small''\<rparr>"
  have ok: "fst (embed_batch ?ev toy_world ?bq [])
              = Inr (BatchBody (PyList [PyList [PyNum 4], PyList [PyNum 6]]) 2)"
    by (simp add: embed_batch_def embed_batch_try_def Let_def toy_models_small toy_model_def
          toy_encode_def toy_env_def)
  have pc: "virtual_memory_percent ?ev = Inr 91" "cuda_is_available ?ev"
    by (simp_all add: toy_env_def)
  have cs: "calls toy_world (fst (snd (embed_batch ?ev toy_world ?bq [])))
              = [ModelsGet ''intfloat/multilingual-e5-small'',
                 Encode ''intfloat/multilingual-e5-small'' (StrList [''q: a'', ''q: bcd'']) (Some 32),
                 VirtualMemory]"
    by (simp add: embed_batch_def embed_batch_try_def Let_def toy_models_small toy_model_def
          toy_encode_def toy_env_def)
  from cleanup_deferred_iff_memory_above_80 [OF ok] pc cs
  show ?thesis by auto
qed

end
